theory Spec2Isabelle
  imports Complex_Main
begin

section \<open>TradePulse backend: a model of \<open>src/backend/main.py\<close>\<close>

text \<open>
  Numbers: a Python float or NumPy \<open>float64\<close> value is modelled by the \<^typ>\<open>real\<close> number
  it denotes, and the scalar operations of the source by exact arithmetic. Overflow, \<open>inf\<close>
  and \<open>nan\<close> are outside the model; every comparison and branch of the source is kept as
  written. What \<open>np.mean\<close> and \<open>np.std\<close> return on a window is not computed by the model:
  NumPy is not part of the repository, and its \<open>float64\<close> results are not the exact mean
  and deviation, so both functions are parameters.
\<close>

subsection \<open>The rolling window \<open>price_history = deque(maxlen=100)\<close>\<close>

definition maxlen :: nat where
  "maxlen = 100"

text \<open>
  \<open>deque.append\<close> on a bounded deque: the item is added on the right and, when the
  deque then holds more than \<open>maxlen\<close> items, one item is removed from the left.
\<close>

definition deque_append :: "'a list \<Rightarrow> 'a \<Rightarrow> 'a list" where
  "deque_append dq x =
     (let ys = dq @ [x] in if length ys > maxlen then tl ys else ys)"

text \<open>The window after a sequence of \<open>price_history.append\<close> calls, oldest call first.\<close>

fun append_all :: "'a list \<Rightarrow> 'a list \<Rightarrow> 'a list" where
  "append_all dq [] = dq"
| "append_all dq (p # ps) = append_all (deque_append dq p) ps"

subsection \<open>The analytics engine \<open>calculate_anomaly\<close>\<close>

text \<open>
  The status strings of the source: \<open>"CALIBRATING"\<close>, \<open>"STABLE"\<close>, \<open>"NORMAL"\<close>, and
  \<open>"PUMP_DETECTED"\<close>, \<open>"DUMP_DETECTED"\<close> (each of the last two followed by a space and an
  emoji in the source).
\<close>

datatype status = CALIBRATING | STABLE | NORMAL | PUMP_DETECTED | DUMP_DETECTED

record stats =
  status :: status
  z_score :: real
  mean_price :: real

text \<open>
  The two NumPy functions that \<open>calculate_anomaly\<close> calls on the window, as parameters:
  \<open>np_mean np w\<close> is the \<open>float64\<close> that \<open>np.mean\<close> returns on the array of \<open>w\<close>, and
  \<open>np_std np w\<close> the one that \<open>np.std\<close> returns. Nothing is assumed of them; in particular
  the deviation that NumPy computes for a window of identical prices need not be zero.
\<close>

record numpy =
  np_mean :: "real list \<Rightarrow> real"
  np_std :: "real list \<Rightarrow> real"

text \<open>
  The quotient of two \<open>float64\<close> scalars. With a zero divisor NumPy emits a
  \<open>RuntimeWarning\<close> and returns \<open>inf\<close> or \<open>nan\<close>, for which the model has no value: \<open>None\<close>.
\<close>

definition np_true_divide :: "real \<Rightarrow> real \<Rightarrow> real option" where
  "np_true_divide x y = (if y = 0 then None else Some (x / y))"

text \<open>\<open>np.rint\<close>: the nearest integer, a tie going to the even neighbour.\<close>

definition np_rint :: "real \<Rightarrow> real" where
  "np_rint y =
     (let f = \<lfloor>y\<rfloor>; d = y - of_int f
      in if d < 1 / 2 then of_int f
         else if d > 1 / 2 then of_int (f + 1)
         else if even f then of_int f else of_int (f + 1))"

text \<open>\<open>round(x, 2)\<close> on a \<open>float64\<close>: scale by 100, round to the nearest integer, scale
  back.\<close>

definition round2 :: "real \<Rightarrow> real" where
  "round2 x = np_rint (x * 100) / 100"

text \<open>
  \<open>calculate_anomaly\<close> (lines 73 to 89) on the window \<open>price_history\<close>. The result is
  \<open>Some\<close> of the returned dict; it is \<open>None\<close> when the quotient of line 84 is formed with
  a zero divisor.
\<close>

definition calculate_anomaly :: "numpy \<Rightarrow> real list \<Rightarrow> real \<Rightarrow> stats option" where
  "calculate_anomaly np price_history current_price =
     (if length price_history < 20
      then Some \<lparr>status = CALIBRATING, z_score = 0, mean_price = current_price\<rparr>
      else
        let mean = np_mean np price_history;
            std_dev = np_std np price_history
        in if std_dev = 0
           then Some \<lparr>status = STABLE, z_score = 0, mean_price = mean\<rparr>
           else
             (case np_true_divide (current_price - mean) std_dev of
                None \<Rightarrow> None
              | Some z \<Rightarrow>
                  let st = (if z > 2 then PUMP_DETECTED
                            else if z < - 2 then DUMP_DETECTED
                            else NORMAL)
                  in Some \<lparr>status = st, z_score = round2 z, mean_price = round2 mean\<rparr>))"

text \<open>A sample window of 20 prices on which NumPy returns the mean 100 and the standard
  deviation 10.\<close>

definition sample_window :: "real list" where
  "sample_window = replicate 10 90 @ replicate 10 110"

subsection \<open>Exceptions\<close>

text \<open>
  The exceptions that the modelled code can meet. \<open>CancelledError\<close> is what task
  cancellation raises at an \<open>await\<close>; it derives from \<open>BaseException\<close>, so the clause
  \<open>except Exception\<close> does not catch it. \<open>SendError\<close> stands for whatever
  \<open>send_json\<close> raises on a transport that is already closed, \<open>ConnectError\<close> for
  what \<open>websockets.connect\<close> raises when the connection cannot be opened (both are
  \<open>Exception\<close>s).
\<close>

datatype exc =
    ConnectError
  | ConnectionClosed
  | JSONDecodeError
  | TypeError
  | KeyError
  | ValueError
  | SendError
  | CancelledError

definition is_Exception :: "exc \<Rightarrow> bool" where
  "is_Exception e = (e \<noteq> CancelledError)"

subsection \<open>Decoding an upstream message (lines 99 to 103)\<close>

text \<open>What \<open>json.loads\<close> returns. An object is the list of its key/value pairs, read
  with \<open>map_of\<close>.\<close>

datatype json =
    JNull
  | JBool bool
  | JNum real
  | JStr string
  | JArr "json list"
  | JObj "(string \<times> json) list"

text \<open>A received text frame: \<open>Text j\<close> when \<open>json.loads\<close> returns \<open>j\<close> on it,
  \<open>Malformed\<close> when \<open>json.loads\<close> raises.\<close>

datatype message = Text json | Malformed

definition json_loads :: "message \<Rightarrow> exc + json" where
  "json_loads msg = (case msg of Text j \<Rightarrow> Inr j | Malformed \<Rightarrow> Inl JSONDecodeError)"

text \<open>The test \<open>"p" in data\<close>: key membership on a dict, element membership on a
  list, substring test on a string, a \<open>TypeError\<close> on a number, a boolean or \<open>None\<close>.\<close>

fun contains_p :: "json \<Rightarrow> exc + bool" where
  "contains_p (JObj kvs) = Inr (map_of kvs ''p'' \<noteq> None)"
| "contains_p (JArr xs) = Inr (JStr ''p'' \<in> set xs)"
| "contains_p (JStr s) = Inr (CHR ''p'' \<in> set s)"
| "contains_p _ = Inl TypeError"

text \<open>The subscription \<open>data[k]\<close> with a string key: a lookup on a dict (\<open>KeyError\<close>
  when the key is absent), a \<open>TypeError\<close> on every other value.\<close>

fun subscript :: "json \<Rightarrow> string \<Rightarrow> exc + json" where
  "subscript (JObj kvs) k = (case map_of kvs k of None \<Rightarrow> Inl KeyError | Some v \<Rightarrow> Inr v)"
| "subscript _ k = Inl TypeError"

text \<open>
  The builtin \<open>float\<close>. Its parsing of strings is not part of the repository and is a
  parameter \<open>sf\<close>: \<open>sf s = Some x\<close> when \<open>float(s)\<close> returns \<open>x\<close>, \<open>None\<close> when it
  raises \<open>ValueError\<close>.
\<close>

fun py_float :: "(string \<Rightarrow> real option) \<Rightarrow> json \<Rightarrow> exc + real" where
  "py_float sf (JNum x) = Inr x"
| "py_float sf (JBool b) = Inr (if b then 1 else 0)"
| "py_float sf (JStr s) = (case sf s of None \<Rightarrow> Inl ValueError | Some x \<Rightarrow> Inr x)"
| "py_float sf _ = Inl TypeError"

text \<open>Lines 99 to 103: \<open>Inr None\<close> when the \<open>if\<close> is not entered, \<open>Inr (Some (price, qty))\<close>
  when both fields are decoded, \<open>Inl e\<close> when \<open>e\<close> is raised.\<close>

definition decode_trade :: "(string \<Rightarrow> real option) \<Rightarrow> message \<Rightarrow> exc + (real \<times> real) option" where
  "decode_trade sf msg =
     (case json_loads msg of Inl e \<Rightarrow> Inl e | Inr data \<Rightarrow>
      (case contains_p data of Inl e \<Rightarrow> Inl e | Inr False \<Rightarrow> Inr None | Inr True \<Rightarrow>
       (case subscript data ''p'' of Inl e \<Rightarrow> Inl e | Inr pv \<Rightarrow>
        (case py_float sf pv of Inl e \<Rightarrow> Inl e | Inr price \<Rightarrow>
         (case subscript data ''q'' of Inl e \<Rightarrow> Inl e | Inr qv \<Rightarrow>
          (case py_float sf qv of Inl e \<Rightarrow> Inl e | Inr qty \<Rightarrow>
           Inr (Some (price, qty))))))))"

subsection \<open>The connection manager\<close>

text \<open>The dict that is broadcast (lines 112 to 118); \<open>stats\<close> is what
  \<open>calculate_anomaly\<close> returned.\<close>

record payload =
  price :: real
  stats :: "stats option"
  volume :: real
  is_whale :: bool
  timestamp :: string

text \<open>A subscriber's WebSocket: whether its transport is still open, and the payloads
  it has been sent, oldest first.\<close>

record connection =
  conn_id :: nat
  transport_open :: bool
  received :: "payload list"

definition send_json :: "connection \<Rightarrow> payload \<Rightarrow> exc + connection" where
  "send_json c m =
     (if transport_open c then Inr (c\<lparr>received := received c @ [m]\<rparr>) else Inl SendError)"

text \<open>\<open>ConnectionManager.connect\<close> and \<open>disconnect\<close> on \<open>active_connections\<close>;
  \<open>list.remove\<close> raises \<open>ValueError\<close> when the item is absent.\<close>

definition connect :: "connection list \<Rightarrow> connection \<Rightarrow> connection list" where
  "connect active_connections websocket = active_connections @ [websocket]"

definition disconnect :: "connection list \<Rightarrow> connection \<Rightarrow> exc + connection list" where
  "disconnect active_connections websocket =
     (if websocket \<in> set active_connections
      then Inr (remove1 websocket active_connections)
      else Inl ValueError)"

text \<open>
  \<open>ConnectionManager.broadcast\<close>: the \<open>for\<close> loop over \<open>active_connections\<close>. The first
  \<open>send_json\<close> that raises ends the loop; the exception leaves \<open>broadcast\<close> and the
  list is as it was. The result pairs \<open>Inl e\<close> (raised \<open>e\<close>) or \<open>Inr ()\<close> (returned) with
  the connections after the call.
\<close>

fun broadcast :: "connection list \<Rightarrow> payload \<Rightarrow> (exc + unit) \<times> connection list" where
  "broadcast [] m = (Inr (), [])"
| "broadcast (c # cs) m =
     (case send_json c m of
        Inl e \<Rightarrow> (Inl e, c # cs)
      | Inr c' \<Rightarrow> (case broadcast cs m of (r, cs') \<Rightarrow> (r, c' # cs')))"

subsection \<open>The market listener \<open>listen_to_crypto_market\<close>\<close>

text \<open>What the listener does to the outside, in order: opening the upstream
  connection, the logger calls, and the \<open>asyncio.sleep\<close> calls.\<close>

datatype effect =
    Connect
  | LogInfo string
  | LogError string exc
  | Sleep nat

record feed_state =
  price_history :: "real list"
  active_connections :: "connection list"
  ws_open :: bool
  effects :: "effect list"

text \<open>
  What the upstream presents to one \<open>await ws.recv()\<close> on an open connection: a text
  frame (with the reading of \<open>datetime.now().isoformat()\<close> taken while it is processed),
  the loss of the connection, or the cancellation of the listener task.
\<close>

datatype upstream = Frame message string | Drop | Cancel

text \<open>Lines 104 to 119, for a decoded trade of price \<open>p\<close> and quantity \<open>q\<close>.\<close>

definition process_trade ::
  "numpy \<Rightarrow> real \<Rightarrow> real \<Rightarrow> string \<Rightarrow> feed_state \<Rightarrow> (exc + unit) \<times> feed_state" where
  "process_trade np p q now s =
     (let vol = p * q;
          history = deque_append (price_history s) p;
          st = calculate_anomaly np history p;
          whale = (vol > 50000);
          pl = \<lparr>price = p, stats = st, volume = vol, is_whale = whale, timestamp = now\<rparr>
      in case broadcast (active_connections s) pl of
           (r, cs) \<Rightarrow> (r, s\<lparr>price_history := history, active_connections := cs\<rparr>))"

text \<open>The body of the \<open>try\<close> (lines 98 to 119) when \<open>recv\<close> is called on an open
  connection.\<close>

fun try_body ::
  "numpy \<Rightarrow> (string \<Rightarrow> real option) \<Rightarrow> upstream \<Rightarrow> feed_state \<Rightarrow> (exc + unit) \<times> feed_state" where
  "try_body np sf Drop s = (Inl ConnectionClosed, s\<lparr>ws_open := False\<rparr>)"
| "try_body np sf Cancel s = (Inl CancelledError, s)"
| "try_body np sf (Frame msg now) s =
     (case decode_trade sf msg of
        Inl e \<Rightarrow> (Inl e, s)
      | Inr None \<Rightarrow> (Inr (), s)
      | Inr (Some (p, q)) \<Rightarrow> process_trade np p q now s)"

text \<open>The handler of \<open>except Exception as e\<close> (lines 121 to 123).\<close>

definition except_handler :: "exc \<Rightarrow> feed_state \<Rightarrow> feed_state" where
  "except_handler e s = s\<lparr>effects := effects s @ [LogError ''feed_error'' e, Sleep 5]\<rparr>"

text \<open>How a run of the listener stands: still inside \<open>while True\<close>, or ended by an
  exception that left the coroutine.\<close>

datatype run = Running | Raised exc

text \<open>
  The \<open>while True\<close> loop (lines 96 to 123), observed for at most \<open>n\<close> iterations. On a
  connection that is no longer open \<open>recv\<close> raises \<open>ConnectionClosed\<close> at once; on an
  open one it takes the next upstream event, and waits when there is none. An exception
  that the handler does not catch leaves the \<open>async with\<close> block, which closes the
  connection.
\<close>

fun listen_loop ::
  "numpy \<Rightarrow> (string \<Rightarrow> real option) \<Rightarrow> nat \<Rightarrow> upstream list \<Rightarrow> feed_state \<Rightarrow> run \<times> feed_state" where
  "listen_loop np sf 0 ups s = (Running, s)"
| "listen_loop np sf (Suc n) ups s =
     (if \<not> ws_open s then listen_loop np sf n ups (except_handler ConnectionClosed s)
      else case ups of
          [] \<Rightarrow> (Running, s)
        | u # ups' \<Rightarrow>
            (case try_body np sf u s of
               (Inr _, s') \<Rightarrow> listen_loop np sf n ups' s'
             | (Inl e, s') \<Rightarrow>
                 if is_Exception e then listen_loop np sf n ups' (except_handler e s')
                 else (Raised e, s'\<lparr>ws_open := False\<rparr>)))"

text \<open>The whole coroutine: the connection is opened once (line 94), before the loop.
  \<open>handshake_ok = False\<close> is an attempt that fails; its exception leaves the coroutine.\<close>

definition listen_to_crypto_market ::
  "numpy \<Rightarrow> (string \<Rightarrow> real option) \<Rightarrow> bool \<Rightarrow> nat \<Rightarrow> upstream list \<Rightarrow> feed_state
     \<Rightarrow> run \<times> feed_state" where
  "listen_to_crypto_market np sf handshake_ok n ups s =
     (if \<not> handshake_ok
      then (Raised ConnectError, s\<lparr>effects := effects s @ [Connect]\<rparr>)
      else listen_loop np sf n ups
             (s\<lparr>ws_open := True,
                effects := effects s @ [Connect, LogInfo ''connected_to_binance'']\<rparr>))"

subsection \<open>Trade execution \<open>execute_trade\<close>\<close>

record portfolio =
  usd :: real
  btc :: real

text \<open>A row of the table \<open>trades\<close>; the primary key is assigned by the database.\<close>

record trade_record =
  tr_id :: nat
  tr_type :: string
  tr_price :: real
  tr_amount :: real
  tr_timestamp :: string

record database =
  rows :: "trade_record list"
  next_id :: nat

datatype http_error = HTTPException nat string

record response =
  resp_status :: string
  resp_trade_id :: nat
  resp_portfolio :: portfolio

text \<open>\<open>db.add\<close>, \<open>db.commit\<close> and \<open>db.refresh\<close> (lines 180 to 183) on a store that accepts
  the row, and the response of line 187. The logger call of line 185 changes neither the
  state nor the response and is left out.\<close>

definition persist ::
  "string \<Rightarrow> real \<Rightarrow> real \<Rightarrow> string \<Rightarrow> portfolio \<Rightarrow> database \<Rightarrow> (http_error + response) \<times> portfolio \<times> database" where
  "persist ttype tprice amount now pf db =
     (let new_trade = \<lparr>tr_id = next_id db, tr_type = ttype, tr_price = tprice,
                        tr_amount = amount, tr_timestamp = now\<rparr>
      in (Inr \<lparr>resp_status = ''executed'', resp_trade_id = tr_id new_trade, resp_portfolio = pf\<rparr>,
          pf, db\<lparr>rows := rows db @ [new_trade], next_id := next_id db + 1\<rparr>))"

text \<open>\<open>execute_trade\<close> (lines 161 to 187) on the global \<open>portfolio\<close> and the table of
  trades; \<open>now\<close> is the reading of \<open>datetime.utcnow\<close> that the new row gets by default.
  A raised \<open>HTTPException\<close> is the \<open>Inl\<close> result.\<close>

definition execute_trade ::
  "string \<Rightarrow> real \<Rightarrow> string \<Rightarrow> portfolio \<Rightarrow> database \<Rightarrow> (http_error + response) \<times> portfolio \<times> database" where
  "execute_trade ttype tprice now pf db =
     (let amount = 1 / 10
      in if ttype = ''BUY'' then
           let cost = tprice * amount
           in if usd pf < cost
              then (Inl (HTTPException 400 ''Insufficient Funds''), pf, db)
              else persist ttype tprice amount now
                     (pf\<lparr>usd := usd pf - cost, btc := btc pf + amount\<rparr>) db
         else if ttype = ''SELL'' then
           if btc pf < amount
           then (Inl (HTTPException 400 ''Insufficient BTC''), pf, db)
           else let revenue = tprice * amount
                in persist ttype tprice amount now
                     (pf\<lparr>btc := btc pf - amount, usd := usd pf + revenue\<rparr>) db
         else persist ttype tprice amount now pf db)"

subsection \<open>Sample data for the concrete runs\<close>

text \<open>A subscriber that has received nothing yet, an event, a reading of \<open>float\<close> on two
  strings, the listener's state at start-up with given subscribers, and a trade message
  as the upstream sends it.\<close>

text \<open>
  \<open>numpy_reading w m d\<close> is a reading of NumPy on the one window \<open>w\<close>: there \<open>np.mean\<close>
  returns \<open>m\<close> and \<open>np.std\<close> returns \<open>d\<close>. \<open>sample_numpy\<close> is the reading on the sample
  window. \<open>float64_67123_45\<close> is the \<open>float64\<close> that the
  literal \<open>67123.45\<close> denotes; its unit in the last place is \<open>1 / 2 ^ 36\<close>.
\<close>

definition numpy_reading :: "real list \<Rightarrow> real \<Rightarrow> real \<Rightarrow> numpy" where
  "numpy_reading w m d =
     \<lparr>np_mean = (\<lambda>v. if v = w then m else 0), np_std = (\<lambda>v. if v = w then d else 0)\<rparr>"

definition sample_numpy :: numpy where
  "sample_numpy = numpy_reading sample_window 100 10"


definition subscriber :: "nat \<Rightarrow> bool \<Rightarrow> connection" where
  "subscriber i alive = \<lparr>conn_id = i, transport_open = alive, received = []\<rparr>"

definition sample_event :: payload where
  "sample_event =
     \<lparr>price = 100, stats = Some \<lparr>status = CALIBRATING, z_score = 0, mean_price = 100\<rparr>,
      volume = 200, is_whale = False, timestamp = ''t''\<rparr>"

definition sample_float :: "string \<Rightarrow> real option" where
  "sample_float = map_of [(''100.0'', 100), (''2.0'', 2)]"

definition start_state :: "connection list \<Rightarrow> feed_state" where
  "start_state cs =
     \<lparr>price_history = [], active_connections = cs, ws_open = False, effects = []\<rparr>"

definition trade_message :: message where
  "trade_message = Text (JObj [(''e'', JStr ''trade''), (''p'', JStr ''100.0''), (''q'', JStr ''2.0'')])"

section \<open>Properties\<close>

subsection \<open>The rolling window\<close>

lemma length_deque_append:
  "length dq \<le> maxlen \<Longrightarrow> length (deque_append dq x) \<le> maxlen"
  by (simp add: deque_append_def Let_def)

lemma deque_append_full:
  "length dq = maxlen \<Longrightarrow> deque_append dq x = tl dq @ [x]"
  by (cases dq) (simp_all add: deque_append_def Let_def maxlen_def)

lemma deque_append_drop:
  "length dq \<le> maxlen \<Longrightarrow>
   deque_append dq x = drop (length (dq @ [x]) - maxlen) (dq @ [x])"
proof (cases "length dq = maxlen")
  case True
  then have "length (dq @ [x]) - maxlen = 1" by simp
  then have "drop (length (dq @ [x]) - maxlen) (dq @ [x]) = tl (dq @ [x])"
    by (simp only: drop_Suc drop_0 One_nat_def)
  with True show ?thesis by (simp add: deque_append_def Let_def)
next
  case False
  assume "length dq \<le> maxlen"
  with False have "length dq < maxlen" by simp
  then show ?thesis by (simp add: deque_append_def Let_def)
qed

lemma append_all_drop:
  "length dq \<le> maxlen \<Longrightarrow>
   append_all dq ps = drop (length (dq @ ps) - maxlen) (dq @ ps)"
proof (induction ps arbitrary: dq)
  case Nil
  then show ?case by simp
next
  case (Cons p ps)
  let ?dq' = "deque_append dq p"
  have len: "length ?dq' \<le> maxlen"
    using Cons.prems by (rule length_deque_append)
  have dq': "?dq' = drop (length (dq @ [p]) - maxlen) (dq @ [p])"
    using Cons.prems by (rule deque_append_drop)
  have "append_all dq (p # ps) = append_all ?dq' ps" by simp
  also have "\<dots> = drop (length (?dq' @ ps) - maxlen) (?dq' @ ps)"
    using len by (rule Cons.IH)
  also have "\<dots> = drop (length (dq @ p # ps) - maxlen) (dq @ p # ps)"
  proof (cases "length dq = maxlen")
    case True
    from True obtain a as where dq: "dq = a # as"
      by (cases dq) (auto simp: maxlen_def)
    from True have "?dq' = tl dq @ [p]" by (rule deque_append_full)
    with dq have tail: "?dq' @ ps = as @ p # ps" by simp
    from True dq have n1: "length (as @ p # ps) - maxlen = length ps" by simp
    from True have n2: "length (dq @ p # ps) - maxlen = Suc (length ps)" by simp
    have "drop (length (?dq' @ ps) - maxlen) (?dq' @ ps) = drop (length ps) (as @ p # ps)"
      unfolding tail n1 ..
    also have "\<dots> = drop (Suc (length ps)) (a # as @ p # ps)"
      by (simp only: drop_Suc_Cons)
    also have "\<dots> = drop (length (dq @ p # ps) - maxlen) (dq @ p # ps)"
      unfolding n2 by (simp only: dq append_Cons)
    finally show ?thesis .
  next
    case False
    with Cons.prems have "length dq < maxlen" by simp
    then have "?dq' = dq @ [p]" by (simp add: deque_append_def Let_def)
    then show ?thesis by simp
  qed
  finally show ?case .
qed

text \<open>
  C7. Starting from the empty deque, after any sequence \<open>ps\<close> of appended prices the
  window holds at most 100 prices, and they are exactly the last 100 of \<open>ps\<close> in
  arrival order (all of \<open>ps\<close> when fewer than 100 were appended); appending to a full
  window drops exactly its oldest entry.
\<close>

theorem price_history_most_recent:
  "length (append_all [] ps) \<le> 100
   \<and> append_all [] ps = drop (length ps - 100) ps
   \<and> (length ps < 100 \<longrightarrow> append_all [] ps = ps)
   \<and> (length dq = 100 \<longrightarrow> deque_append dq p = tl dq @ [p])"
proof -
  have eq: "append_all [] ps = drop (length ps - 100) ps"
    using append_all_drop [of "[]" ps] by (simp add: maxlen_def)
  have full: "length dq = 100 \<longrightarrow> deque_append dq p = tl dq @ [p]"
    using deque_append_full [of dq p] by (simp add: maxlen_def)
  from eq full show ?thesis by simp
qed

theorem price_history_most_recent_witness:
  "length [1, 2, 3 :: real] < 100
   \<and> append_all [] [1, 2, 3 :: real] = [1, 2, 3]
   \<and> length (replicate 100 (0 :: real)) = 100
   \<and> deque_append (replicate 100 0) (5 :: real) = tl (replicate 100 0) @ [5]"
  using price_history_most_recent [of "[1, 2, 3 :: real]" "replicate 100 (0 :: real)" 5]
  by simp

subsection \<open>The analytics engine\<close>

lemma length_sample_window: "length sample_window = 20"
  by (simp add: sample_window_def)

lemma round2_2004: "round2 (501 / 250) = 2"
proof -
  have f: "\<lfloor>(1002 / 5 :: real)\<rfloor> = 200" by linarith
  have "np_rint (1002 / 5) = 200"
    unfolding np_rint_def Let_def f by simp
  then show ?thesis by (simp add: round2_def)
qed

lemma round2_int: "round2 (of_int k) = of_int k"
proof -
  have "of_int k * (100 :: real) = of_int (k * 100)" by simp
  then have "np_rint (of_int k * 100) = of_int (k * 100)"
    unfolding np_rint_def Let_def by (simp only: floor_of_int) simp
  then show ?thesis by (simp add: round2_def)
qed

lemma calculate_anomaly_finite: "calculate_anomaly np w cur \<noteq> None"
  by (simp add: calculate_anomaly_def np_true_divide_def Let_def)

text \<open>
  C5. On a window of at least 20 prices with a nonzero standard deviation, the status is
  decided by the unrounded \<open>z = (current_price - mean) / std_dev\<close>: pump exactly when
  \<open>z > 2\<close>, dump exactly when \<open>z < -2\<close>, normal otherwise; only the reported \<open>z_score\<close>
  and \<open>mean_price\<close> are rounded to two decimals.
\<close>

theorem calculate_anomaly_thresholds:
  "20 \<le> length w \<Longrightarrow> np_std np w \<noteq> 0 \<Longrightarrow> z = (cur - np_mean np w) / np_std np w \<Longrightarrow>
   \<exists>st. calculate_anomaly np w cur = Some st
     \<and> (status st = PUMP_DETECTED \<longleftrightarrow> z > 2)
     \<and> (status st = DUMP_DETECTED \<longleftrightarrow> z < - 2)
     \<and> (status st = NORMAL \<longleftrightarrow> - 2 \<le> z \<and> z \<le> 2)
     \<and> z_score st = round2 z
     \<and> mean_price st = round2 (np_mean np w)"
  by (simp add: calculate_anomaly_def np_true_divide_def Let_def)

text \<open>At price 120.04 on the sample window \<open>z\<close> is 2.004: the status is a pump although
  the reported \<open>z_score\<close> is 2.\<close>

theorem calculate_anomaly_thresholds_witness:
  "20 \<le> length sample_window \<and> np_std sample_numpy sample_window \<noteq> 0
   \<and> (3001 / 25 - np_mean sample_numpy sample_window) / np_std sample_numpy sample_window
       = 501 / 250
   \<and> calculate_anomaly sample_numpy sample_window (3001 / 25)
       = Some \<lparr>status = PUMP_DETECTED, z_score = 2, mean_price = 100\<rparr>"
proof -
  have m: "np_mean sample_numpy sample_window = 100"
    and d: "np_std sample_numpy sample_window = 10"
    by (simp_all add: sample_numpy_def numpy_reading_def)
  have l: "20 \<le> length sample_window" by (simp add: length_sample_window)
  have s: "np_std sample_numpy sample_window \<noteq> 0" by (simp add: d)
  have z: "501 / 250 = (3001 / 25 - np_mean sample_numpy sample_window)
      / np_std sample_numpy sample_window"
    by (simp add: m d)
  from calculate_anomaly_thresholds [OF l s z]
  obtain st where c: "calculate_anomaly sample_numpy sample_window (3001 / 25) = Some st"
    and p: "status st = PUMP_DETECTED \<longleftrightarrow> (501 / 250 :: real) > 2"
    and r: "z_score st = round2 (501 / 250)"
    and a: "mean_price st = round2 (np_mean sample_numpy sample_window)"
    by blast
  from p have p': "status st = PUMP_DETECTED" by simp
  from r have r': "z_score st = 2" by (simp only: round2_2004)
  from a m round2_int [of 100] have a': "mean_price st = 100" by simp
  from p' r' a' have "st = \<lparr>status = PUMP_DETECTED, z_score = 2, mean_price = 100\<rparr>"
    by (cases st) simp
  with c l s z [symmetric] show ?thesis by blast
qed




subsection \<open>Trade execution\<close>

text \<open>
  C9. A \<open>BUY\<close> whose cost \<open>price * 0.1\<close> exceeds the dollars held, and a \<open>SELL\<close> with
  less than 0.1 bitcoin held, raise an HTTP 400 error; the portfolio and the table of
  trades are exactly as before the call.
\<close>

theorem execute_trade_rejected:
  "(ttype = ''BUY'' \<and> usd pf < tprice * (1 / 10)) \<or> (ttype = ''SELL'' \<and> btc pf < 1 / 10) \<Longrightarrow>
   fst (execute_trade ttype tprice now pf db) =
     Inl (HTTPException 400
            (if ttype = ''BUY'' then ''Insufficient Funds'' else ''Insufficient BTC''))
   \<and> snd (execute_trade ttype tprice now pf db) = (pf, db)"
  by (auto simp: execute_trade_def Let_def)

theorem execute_trade_rejected_witness:
  "usd \<lparr>usd = 100000, btc = 0\<rparr> < 2000000 * (1 / 10)
   \<and> execute_trade ''BUY'' 2000000 ''t'' \<lparr>usd = 100000, btc = 0\<rparr> \<lparr>rows = [], next_id = 1\<rparr>
       = (Inl (HTTPException 400 ''Insufficient Funds''),
          \<lparr>usd = 100000, btc = 0\<rparr>, \<lparr>rows = [], next_id = 1\<rparr>)
   \<and> btc \<lparr>usd = 100000, btc = 0\<rparr> < 1 / 10
   \<and> execute_trade ''SELL'' 30000 ''t'' \<lparr>usd = 100000, btc = 0\<rparr> \<lparr>rows = [], next_id = 1\<rparr>
       = (Inl (HTTPException 400 ''Insufficient BTC''),
          \<lparr>usd = 100000, btc = 0\<rparr>, \<lparr>rows = [], next_id = 1\<rparr>)"
  using
    execute_trade_rejected [of "''BUY''" "\<lparr>usd = 100000, btc = 0\<rparr>" 2000000 "''t''"
      "\<lparr>rows = [], next_id = 1\<rparr>"]
    execute_trade_rejected [of "''SELL''" "\<lparr>usd = 100000, btc = 0\<rparr>" 30000 "''t''"
      "\<lparr>rows = [], next_id = 1\<rparr>"]
  by (simp add: execute_trade_def Let_def)

text \<open>
  C10. With a type that is neither \<open>BUY\<close> nor \<open>SELL\<close> the portfolio is untouched, yet a
  row with that type is stored and the call answers \<open>executed\<close> with the id of that row.
\<close>

theorem execute_trade_unknown_type:
  "ttype \<noteq> ''BUY'' \<Longrightarrow> ttype \<noteq> ''SELL'' \<Longrightarrow>
   execute_trade ttype tprice now pf db =
     (Inr \<lparr>resp_status = ''executed'', resp_trade_id = next_id db, resp_portfolio = pf\<rparr>,
      pf,
      db\<lparr>rows := rows db @ [\<lparr>tr_id = next_id db, tr_type = ttype, tr_price = tprice,
                               tr_amount = 1 / 10, tr_timestamp = now\<rparr>],
         next_id := next_id db + 1\<rparr>)"
  by (simp add: execute_trade_def persist_def Let_def)

theorem execute_trade_unknown_type_witness:
  "''HOLD'' \<noteq> ''BUY'' \<and> ''HOLD'' \<noteq> ''SELL''
   \<and> execute_trade ''HOLD'' 30000 ''t'' \<lparr>usd = 100000, btc = 0\<rparr> \<lparr>rows = [], next_id = 1\<rparr> =
     (Inr \<lparr>resp_status = ''executed'', resp_trade_id = 1,
           resp_portfolio = \<lparr>usd = 100000, btc = 0\<rparr>\<rparr>,
      \<lparr>usd = 100000, btc = 0\<rparr>,
      \<lparr>rows = [\<lparr>tr_id = 1, tr_type = ''HOLD'', tr_price = 30000,
                  tr_amount = 1 / 10, tr_timestamp = ''t''\<rparr>],
       next_id = 2\<rparr>)"
  using execute_trade_unknown_type [of "''HOLD''" 30000 "''t''" "\<lparr>usd = 100000, btc = 0\<rparr>"
      "\<lparr>rows = [], next_id = 1\<rparr>"]
  by simp

subsection \<open>Broadcasting\<close>

lemma broadcast_prefix:
  "broadcast cs m =
     (if list_all transport_open cs then Inr () else Inl SendError,
      map (\<lambda>c. c\<lparr>received := received c @ [m]\<rparr>) (takeWhile transport_open cs)
        @ dropWhile transport_open cs)"
  by (induction cs) (simp_all add: send_json_def)

lemma broadcast_conn_ids:
  "map conn_id (snd (broadcast cs m)) = map conn_id cs"
  by (induction cs) (auto simp: send_json_def split: prod.splits)

lemma broadcast_nth:
  "i < length cs \<Longrightarrow>
   snd (broadcast cs m) ! i = cs ! i
   \<or> snd (broadcast cs m) ! i = (cs ! i)\<lparr>received := received (cs ! i) @ [m]\<rparr>"
proof (induction cs arbitrary: i)
  case Nil
  then show ?case by simp
next
  case (Cons c cs)
  show ?case
  proof (cases i)
    case 0
    then show ?thesis by (simp add: send_json_def split: prod.splits)
  next
    case (Suc j)
    with Cons.prems have "j < length cs" by simp
    from Cons.IH [OF this] Suc show ?thesis
      by (auto simp: send_json_def split: prod.splits)
  qed
qed

lemma process_trade_eq:
  "process_trade np p q now s =
     (if list_all transport_open (active_connections s) then Inr () else Inl SendError,
      s\<lparr>price_history := deque_append (price_history s) p,
        active_connections :=
          map (\<lambda>c. c\<lparr>received := received c @
                 [\<lparr>price = p, stats = calculate_anomaly np (deque_append (price_history s) p) p,
                   volume = p * q, is_whale = (p * q > 50000), timestamp = now\<rparr>]\<rparr>)
              (takeWhile transport_open (active_connections s))
          @ dropWhile transport_open (active_connections s)\<rparr>)"
  by (simp add: process_trade_def Let_def broadcast_prefix)

lemma decode_trade_exc:
  "decode_trade sf msg = Inl e \<Longrightarrow> is_Exception e"
proof -
  have a: "\<And>j. contains_p j = Inl e \<Longrightarrow> e = TypeError"
    by (case_tac j) auto
  have b: "\<And>j k. subscript j k = Inl e \<Longrightarrow> e = TypeError \<or> e = KeyError"
    by (case_tac j) (auto split: option.splits)
  have c: "\<And>j. py_float sf j = Inl e \<Longrightarrow> e = TypeError \<or> e = ValueError"
    by (case_tac j) (auto split: option.splits)
  assume "decode_trade sf msg = Inl e"
  then have "e \<in> {JSONDecodeError, TypeError, KeyError, ValueError}"
    by (auto simp: decode_trade_def json_loads_def
        split: message.splits sum.splits bool.splits dest: a b c)
  then show ?thesis by (auto simp: is_Exception_def)
qed

text \<open>
  C1, as the code has it. \<open>broadcast\<close> sends to the subscribers in list order. When every
  send succeeds, every subscriber receives the event and the call returns. When a send
  fails, the subscribers before the first failing one have received the event, the
  failing one and all after it have received nothing, and the exception leaves
  \<open>broadcast\<close>. In both cases the list of subscribers is the same as before: a failed
  subscriber stays registered.
\<close>

theorem broadcast_stops_at_first_failure:
  "broadcast cs m =
     (if list_all transport_open cs then Inr () else Inl SendError,
      map (\<lambda>c. c\<lparr>received := received c @ [m]\<rparr>) (takeWhile transport_open cs)
        @ dropWhile transport_open cs)
   \<and> map conn_id (snd (broadcast cs m)) = map conn_id cs"
  using broadcast_prefix [of cs m] broadcast_conn_ids [of cs m] by (rule conjI)

text \<open>Three subscribers, the second one closed: the call raises, the third subscriber
  receives nothing, and the second is still registered.\<close>

theorem broadcast_isolation_counterexample:
  "broadcast [subscriber 1 True, subscriber 2 False, subscriber 3 True] sample_event =
     (Inl SendError,
      [(subscriber 1 True)\<lparr>received := [sample_event]\<rparr>, subscriber 2 False, subscriber 3 True])"
  by (simp add: send_json_def subscriber_def)

subsection \<open>The listener's loop\<close>

lemma process_trade_exc:
  "process_trade np p q now s = (Inl e, s') \<Longrightarrow> e = SendError"
  by (simp add: process_trade_eq split: if_splits)

lemma try_body_exc:
  "u \<noteq> Cancel \<Longrightarrow> try_body np sf u s = (Inl e, s') \<Longrightarrow> is_Exception e"
proof (cases u)
  case (Frame msg now)
  assume "try_body np sf u s = (Inl e, s')"
  with Frame show ?thesis
    by (auto simp: is_Exception_def split: sum.splits option.splits
        dest: decode_trade_exc process_trade_exc)
next
  case Drop
  assume "try_body np sf u s = (Inl e, s')"
  with Drop show ?thesis by (auto simp: is_Exception_def)
next
  case Cancel
  assume "u \<noteq> Cancel"
  with Cancel show ?thesis by simp
qed

lemma except_handler_ws [simp]: "ws_open (except_handler e s) = ws_open s"
  by (simp add: except_handler_def)

lemma listen_loop_closed:
  "\<not> ws_open s \<Longrightarrow>
   listen_loop np sf n ups s =
     (Running,
      s\<lparr>effects := effects s @ concat (replicate n [LogError ''feed_error'' ConnectionClosed, Sleep 5])\<rparr>)"
proof (induction n arbitrary: s)
  case 0
  then show ?case by simp
next
  case (Suc n)
  from Suc.prems have "\<not> ws_open (except_handler ConnectionClosed s)" by simp
  from Suc.IH [OF this] Suc.prems show ?case
    by (simp add: except_handler_def)
qed

lemma listen_loop_running:
  "Cancel \<notin> set ups \<Longrightarrow> fst (listen_loop np sf n ups s) = Running"
proof (induction n arbitrary: ups s)
  case 0
  then show ?case by simp
next
  case (Suc n)
  show ?case
  proof (cases "ws_open s")
    case False
    then show ?thesis using Suc.IH [OF Suc.prems] by simp
  next
    case True
    show ?thesis
    proof (cases ups)
      case Nil
      with True show ?thesis by simp
    next
      case (Cons u ups')
      with Suc.prems have u: "u \<noteq> Cancel" and rest: "Cancel \<notin> set ups'" by auto
      obtain r s' where tb: "try_body np sf u s = (r, s')" by (cases "try_body np sf u s")
      show ?thesis
      proof (cases r)
        case (Inr x)
        with True Cons tb show ?thesis using Suc.IH [OF rest] by simp
      next
        case (Inl e)
        with tb u have "is_Exception e" by (auto dest: try_body_exc)
        with True Cons tb Inl show ?thesis using Suc.IH [OF rest] by simp
      qed
    qed
  qed
qed

lemma listen_loop_retry:
  "ws_open s \<Longrightarrow> try_body np sf u s = (Inl e, s') \<Longrightarrow> is_Exception e \<Longrightarrow>
   listen_loop np sf (Suc n) (u # ups) s =
     listen_loop np sf n ups (s'\<lparr>effects := effects s' @ [LogError ''feed_error'' e, Sleep 5]\<rparr>)"
  by (simp add: except_handler_def)

lemma decode_trade_message: "decode_trade sample_float trade_message = Inr (Some (100, 2))"
  by (simp add: decode_trade_def json_loads_def trade_message_def sample_float_def)

lemma decode_malformed: "decode_trade sf Malformed = Inl JSONDecodeError"
  by (simp add: decode_trade_def json_loads_def)

text \<open>
  C2, as the code has it. Every exception that a received frame or a dropped connection
  raises inside the loop is caught, logged as \<open>feed_error\<close> and followed by a sleep of 5
  seconds, and the loop goes on to its next iteration; unless the task is cancelled the
  loop never ends and never lets an exception out. The connection is the one opened
  before the loop: once it is closed, every further iteration raises
  \<open>ConnectionClosed\<close>, is logged and sleeps, and nothing else happens.
\<close>

theorem listen_loop_catch_and_retry:
  "(ws_open s \<longrightarrow> u \<noteq> Cancel \<longrightarrow> try_body np sf u s = (Inl e, s') \<longrightarrow>
      listen_loop np sf (Suc n) (u # ups) s =
        listen_loop np sf n ups (s'\<lparr>effects := effects s' @ [LogError ''feed_error'' e, Sleep 5]\<rparr>))
   \<and> (Cancel \<notin> set ups \<longrightarrow> fst (listen_loop np sf n ups s) = Running)
   \<and> (\<not> ws_open s \<longrightarrow>
        listen_loop np sf n ups s =
          (Running,
           s\<lparr>effects := effects s
                @ concat (replicate n [LogError ''feed_error'' ConnectionClosed, Sleep 5])\<rparr>))"
proof (intro conjI impI)
  assume o: "ws_open s" and u: "u \<noteq> Cancel" and t: "try_body np sf u s = (Inl e, s')"
  from u t have "is_Exception e" by (rule try_body_exc)
  with o t show "listen_loop np sf (Suc n) (u # ups) s =
      listen_loop np sf n ups (s'\<lparr>effects := effects s' @ [LogError ''feed_error'' e, Sleep 5]\<rparr>)"
    by (rule listen_loop_retry)
next
  assume "Cancel \<notin> set ups"
  then show "fst (listen_loop np sf n ups s) = Running" by (rule listen_loop_running)
next
  assume "\<not> ws_open s"
  then show "listen_loop np sf n ups s =
      (Running,
       s\<lparr>effects := effects s
            @ concat (replicate n [LogError ''feed_error'' ConnectionClosed, Sleep 5])\<rparr>)"
    by (rule listen_loop_closed)
qed

theorem listen_loop_catch_and_retry_witness:
  "ws_open ((start_state [])\<lparr>ws_open := True\<rparr>)
   \<and> try_body sample_numpy sample_float (Frame Malformed ''t0'') ((start_state [])\<lparr>ws_open := True\<rparr>)
       = (Inl JSONDecodeError, (start_state [])\<lparr>ws_open := True\<rparr>)
   \<and> Cancel \<notin> set [Frame Malformed ''t0'', Frame trade_message ''t1'']
   \<and> listen_loop sample_numpy sample_float (Suc (Suc 0)) [Frame Malformed ''t0'', Frame trade_message ''t1'']
         ((start_state [])\<lparr>ws_open := True\<rparr>)
       = (Running,
          \<lparr>price_history = [100], active_connections = [], ws_open = True,
           effects = [LogError ''feed_error'' JSONDecodeError, Sleep 5]\<rparr>)
   \<and> \<not> ws_open (start_state [])
   \<and> listen_loop sample_numpy sample_float (Suc (Suc 0)) [Frame trade_message ''t1''] (start_state [])
       = (Running,
          \<lparr>price_history = [], active_connections = [], ws_open = False,
           effects = [LogError ''feed_error'' ConnectionClosed, Sleep 5,
                      LogError ''feed_error'' ConnectionClosed, Sleep 5]\<rparr>)"
proof -
  let ?s = "(start_state [])\<lparr>ws_open := True\<rparr>"
  have o: "ws_open ?s" by simp
  have t: "try_body sample_numpy sample_float (Frame Malformed ''t0'') ?s = (Inl JSONDecodeError, ?s)"
    by (simp add: decode_malformed)
  have c: "Cancel \<notin> set [Frame Malformed ''t0'', Frame trade_message ''t1'']" by simp
  have n: "\<not> ws_open (start_state [])" by (simp add: start_state_def)
  from listen_loop_catch_and_retry
    [where s = ?s and u = "Frame Malformed ''t0''" and np = sample_numpy and sf = sample_float
       and e = JSONDecodeError and s' = ?s and n = "Suc 0"
       and ups = "[Frame trade_message ''t1'']"] o t
  have "listen_loop sample_numpy sample_float (Suc (Suc 0)) [Frame Malformed ''t0'', Frame trade_message ''t1''] ?s
      = listen_loop sample_numpy sample_float (Suc 0) [Frame trade_message ''t1'']
          (?s\<lparr>effects := effects ?s @ [LogError ''feed_error'' JSONDecodeError, Sleep 5]\<rparr>)"
    by simp
  also have "\<dots> = (Running,
          \<lparr>price_history = [100], active_connections = [], ws_open = True,
           effects = [LogError ''feed_error'' JSONDecodeError, Sleep 5]\<rparr>)"
    by (simp add: decode_trade_message process_trade_eq start_state_def deque_append_def
        maxlen_def)
  finally have a: "listen_loop sample_numpy sample_float (Suc (Suc 0))
        [Frame Malformed ''t0'', Frame trade_message ''t1''] ?s
      = (Running,
          \<lparr>price_history = [100], active_connections = [], ws_open = True,
           effects = [LogError ''feed_error'' JSONDecodeError, Sleep 5]\<rparr>)" .
  from listen_loop_catch_and_retry
    [where s = "start_state []" and u = Cancel and np = sample_numpy and sf = sample_float
       and e = ConnectionClosed and s' = "start_state []" and n = "Suc (Suc 0)"
       and ups = "[Frame trade_message ''t1'']"] n
  have b: "listen_loop sample_numpy sample_float (Suc (Suc 0)) [Frame trade_message ''t1''] (start_state [])
       = (Running,
          \<lparr>price_history = [], active_connections = [], ws_open = False,
           effects = [LogError ''feed_error'' ConnectionClosed, Sleep 5,
                      LogError ''feed_error'' ConnectionClosed, Sleep 5]\<rparr>)"
    by (simp add: start_state_def)
  from o t c a n b show ?thesis by blast
qed

text \<open>The upstream drops the connection and would then have a trade to send: the
  listener connects once, logs and sleeps in each later iteration, never connects again
  and never sees the trade.\<close>

theorem no_reconnect_counterexample:
  "listen_to_crypto_market sample_numpy sample_float True (Suc (Suc 0)) [Drop, Frame trade_message ''t'']
     (start_state [])
   = (Running,
      \<lparr>price_history = [], active_connections = [], ws_open = False,
       effects = [Connect, LogInfo ''connected_to_binance'',
                  LogError ''feed_error'' ConnectionClosed, Sleep 5,
                  LogError ''feed_error'' ConnectionClosed, Sleep 5]\<rparr>)"
  by (simp add: listen_to_crypto_market_def start_state_def except_handler_def is_Exception_def)

subsection \<open>One message through the loop\<close>

lemma listen_loop_frame:
  "ws_open s \<Longrightarrow>
   listen_loop np sf (Suc 0) [Frame msg now] s =
     (case decode_trade sf msg of
        Inl e \<Rightarrow> (Running, except_handler e s)
      | Inr None \<Rightarrow> (Running, s)
      | Inr (Some (p, q)) \<Rightarrow>
          (if list_all transport_open (active_connections s)
           then (Running, snd (process_trade np p q now s))
           else (Running, except_handler SendError (snd (process_trade np p q now s)))))"
  by (auto simp: process_trade_eq is_Exception_def split: sum.splits option.splits
      dest: decode_trade_exc)

lemma takeWhile_all: "list_all P xs \<Longrightarrow> takeWhile P xs = xs \<and> dropWhile P xs = []"
  by (simp add: list_all_iff)

text \<open>
  C3, as the code has it. For a message decoded as a trade, the window update and the
  classification always complete, before the publish starts. When no send fails, every
  subscriber receives the event. When a send fails, the loop is not shutting down and yet
  the window keeps the trade's price while the event has reached only the subscribers
  before the failing one; the failure is logged and followed by the sleep of 5 seconds.
  A message that is not decoded as a trade changes neither the window nor a subscriber.
\<close>

theorem tick_effects:
  "ws_open s \<Longrightarrow> cs = active_connections s \<Longrightarrow> h = deque_append (price_history s) p \<Longrightarrow>
   ev = \<lparr>price = p, stats = calculate_anomaly np h p, volume = p * q,
         is_whale = (p * q > 50000), timestamp = now\<rparr> \<Longrightarrow>
   (decode_trade sf msg = Inr (Some (p, q)) \<longrightarrow>
      listen_loop np sf (Suc 0) [Frame msg now] s =
        (Running,
         if list_all transport_open cs
         then s\<lparr>price_history := h,
                active_connections := map (\<lambda>c. c\<lparr>received := received c @ [ev]\<rparr>) cs\<rparr>
         else s\<lparr>price_history := h,
                active_connections :=
                  map (\<lambda>c. c\<lparr>received := received c @ [ev]\<rparr>) (takeWhile transport_open cs)
                  @ dropWhile transport_open cs,
                effects := effects s @ [LogError ''feed_error'' SendError, Sleep 5]\<rparr>))
   \<and> ((\<forall>p' q'. decode_trade sf msg \<noteq> Inr (Some (p', q'))) \<longrightarrow>
        price_history (snd (listen_loop np sf (Suc 0) [Frame msg now] s)) = price_history s
        \<and> active_connections (snd (listen_loop np sf (Suc 0) [Frame msg now] s))
            = active_connections s)"
proof (intro conjI impI)
  assume o: "ws_open s" and cs: "cs = active_connections s"
    and h: "h = deque_append (price_history s) p"
    and ev: "ev = \<lparr>price = p, stats = calculate_anomaly np h p, volume = p * q,
         is_whale = (p * q > 50000), timestamp = now\<rparr>"
  {
    assume d: "decode_trade sf msg = Inr (Some (p, q))"
    show "listen_loop np sf (Suc 0) [Frame msg now] s =
        (Running,
         if list_all transport_open cs
         then s\<lparr>price_history := h,
                active_connections := map (\<lambda>c. c\<lparr>received := received c @ [ev]\<rparr>) cs\<rparr>
         else s\<lparr>price_history := h,
                active_connections :=
                  map (\<lambda>c. c\<lparr>received := received c @ [ev]\<rparr>) (takeWhile transport_open cs)
                  @ dropWhile transport_open cs,
                effects := effects s @ [LogError ''feed_error'' SendError, Sleep 5]\<rparr>)"
    proof (cases "list_all transport_open cs")
      case True
      with cs have a: "list_all transport_open (active_connections s)" by simp
      from takeWhile_all [OF a]
      have tw: "takeWhile transport_open (active_connections s) = active_connections s"
        and dw: "dropWhile transport_open (active_connections s) = []"
        by blast+
      have "snd (process_trade np p q now s) =
          s\<lparr>price_history := h,
            active_connections := map (\<lambda>c. c\<lparr>received := received c @ [ev]\<rparr>) cs\<rparr>"
        unfolding process_trade_eq tw dw by (simp add: cs h ev)
      with a True d show ?thesis
        unfolding listen_loop_frame [OF o] by simp
    next
      case False
      with cs h ev d show ?thesis
        unfolding listen_loop_frame [OF o] by (simp add: process_trade_eq except_handler_def)
    qed
  next
    assume n: "\<forall>p' q'. decode_trade sf msg \<noteq> Inr (Some (p', q'))"
    then show "price_history (snd (listen_loop np sf (Suc 0) [Frame msg now] s)) = price_history s"
      unfolding listen_loop_frame [OF o]
      by (auto simp: except_handler_def split: sum.splits option.splits)
    from n show "active_connections (snd (listen_loop np sf (Suc 0) [Frame msg now] s))
            = active_connections s"
      unfolding listen_loop_frame [OF o]
      by (auto simp: except_handler_def split: sum.splits option.splits)
  }
qed

theorem tick_effects_witness:
  "ws_open ((start_state [subscriber 1 True, subscriber 2 False, subscriber 3 True])\<lparr>ws_open := True\<rparr>)
   \<and> decode_trade sample_float trade_message = Inr (Some (100, 2))
   \<and> listen_loop sample_numpy sample_float (Suc 0) [Frame trade_message ''t'']
        ((start_state [subscriber 1 True, subscriber 2 False, subscriber 3 True])\<lparr>ws_open := True\<rparr>)
       = (Running,
          \<lparr>price_history = [100],
           active_connections =
             [(subscriber 1 True)\<lparr>received :=
                [\<lparr>price = 100, stats = Some \<lparr>status = CALIBRATING, z_score = 0, mean_price = 100\<rparr>,
                  volume = 200, is_whale = False, timestamp = ''t''\<rparr>]\<rparr>,
              subscriber 2 False, subscriber 3 True],
           ws_open = True,
           effects = [LogError ''feed_error'' SendError, Sleep 5]\<rparr>)
   \<and> decode_trade sample_float Malformed = Inl JSONDecodeError
   \<and> price_history (snd (listen_loop sample_numpy sample_float (Suc 0) [Frame Malformed ''t'']
        ((start_state [subscriber 1 True])\<lparr>ws_open := True\<rparr>))) = []
   \<and> active_connections (snd (listen_loop sample_numpy sample_float (Suc 0) [Frame Malformed ''t'']
        ((start_state [subscriber 1 True])\<lparr>ws_open := True\<rparr>))) = [subscriber 1 True]"
proof -
  let ?s = "(start_state [subscriber 1 True, subscriber 2 False, subscriber 3 True])\<lparr>ws_open := True\<rparr>"
  let ?t = "(start_state [subscriber 1 True])\<lparr>ws_open := True\<rparr>"
  let ?ev = "\<lparr>price = 100, stats = Some \<lparr>status = CALIBRATING, z_score = 0, mean_price = 100\<rparr>,
                  volume = 200, is_whale = False, timestamp = ''t''\<rparr>"
  have o: "ws_open ?s" by simp
  have d: "decode_trade sample_float trade_message = Inr (Some (100, 2))"
    by (rule decode_trade_message)
  have ev: "?ev = \<lparr>price = 100, stats = calculate_anomaly sample_numpy [100] 100, volume = 100 * 2,
         is_whale = (100 * 2 > (50000::real)), timestamp = ''t''\<rparr>"
    by (simp add: calculate_anomaly_def)
  have h: "[100::real] = deque_append (price_history ?s) 100"
    by (simp add: start_state_def deque_append_def maxlen_def)
  from tick_effects [OF o refl h ev, where sf = sample_float and msg = trade_message] d
  have a: "listen_loop sample_numpy sample_float (Suc 0) [Frame trade_message ''t''] ?s
       = (Running,
          \<lparr>price_history = [100],
           active_connections = [(subscriber 1 True)\<lparr>received := [?ev]\<rparr>,
              subscriber 2 False, subscriber 3 True],
           ws_open = True,
           effects = [LogError ''feed_error'' SendError, Sleep 5]\<rparr>)"
    by (simp add: start_state_def subscriber_def)
  have m: "decode_trade sample_float Malformed = Inl JSONDecodeError"
    by (rule decode_malformed)
  have o': "ws_open ?t" by simp
  from tick_effects [OF o' refl refl refl,
      where sf = sample_float and msg = Malformed and now = "''t''" and p = 0 and q = 0] m
  have b: "price_history (snd (listen_loop sample_numpy sample_float (Suc 0) [Frame Malformed ''t''] ?t)) = []"
    and c: "active_connections (snd (listen_loop sample_numpy sample_float (Suc 0) [Frame Malformed ''t''] ?t))
        = [subscriber 1 True]"
    by (simp_all add: start_state_def)
  from o d a m b c show ?thesis by blast
qed

text \<open>A trade arrives while the first of two subscribers is closed: the window holds
  the price, no subscriber has the event, and the loop is still running.\<close>

theorem partial_tick_counterexample:
  "listen_to_crypto_market sample_numpy sample_float True (Suc 0) [Frame trade_message ''t'']
     (start_state [subscriber 1 False, subscriber 2 True])
   = (Running,
      \<lparr>price_history = [100],
       active_connections = [subscriber 1 False, subscriber 2 True],
       ws_open = True,
       effects = [Connect, LogInfo ''connected_to_binance'',
                  LogError ''feed_error'' SendError, Sleep 5]\<rparr>)"
  by (simp add: listen_to_crypto_market_def start_state_def decode_trade_message
      process_trade_eq subscriber_def is_Exception_def except_handler_def
      deque_append_def maxlen_def)

subsection \<open>Which messages are trades\<close>

lemma decode_trade_Some_iff:
  "decode_trade sf msg = Inr (Some (p, q)) \<longleftrightarrow>
     (\<exists>kvs pv qv. msg = Text (JObj kvs)
        \<and> map_of kvs ''p'' = Some pv \<and> py_float sf pv = Inr p
        \<and> map_of kvs ''q'' = Some qv \<and> py_float sf qv = Inr q)"
proof (cases msg)
  case Malformed
  then show ?thesis by (simp add: decode_trade_def json_loads_def)
next
  case (Text j)
  then show ?thesis
    by (cases j)
      (auto simp: decode_trade_def json_loads_def split: sum.splits option.splits bool.splits)
qed

lemma decode_trade_None_iff:
  "decode_trade sf msg = Inr None \<longleftrightarrow>
     (\<exists>kvs. msg = Text (JObj kvs) \<and> map_of kvs ''p'' = None)
     \<or> (\<exists>xs. msg = Text (JArr xs) \<and> JStr ''p'' \<notin> set xs)
     \<or> (\<exists>t. msg = Text (JStr t) \<and> CHR ''p'' \<notin> set t)"
proof (cases msg)
  case Malformed
  then show ?thesis by (simp add: decode_trade_def json_loads_def)
next
  case (Text j)
  then show ?thesis
    by (cases j)
      (auto simp: decode_trade_def json_loads_def split: sum.splits option.splits bool.splits)
qed

lemma decode_trade_no_q:
  "map_of kvs ''p'' = Some pv \<Longrightarrow> map_of kvs ''q'' = None \<Longrightarrow>
   decode_trade sf (Text (JObj kvs)) =
     (case py_float sf pv of Inl e \<Rightarrow> Inl e | Inr x \<Rightarrow> Inl KeyError)"
  by (simp add: decode_trade_def json_loads_def split: sum.splits)

text \<open>
  C4, as the code has it. A message is decoded as a trade exactly when it is a JSON object
  with a field \<open>p\<close> and a field \<open>q\<close> that \<open>float\<close> both converts. It is ignored without
  any effect exactly when the test \<open>"p" in data\<close> is false: an object without \<open>p\<close>, or an
  array or a string that does not contain \<open>p\<close>. An object with \<open>p\<close> and without \<open>q\<close> raises
  (the conversion error of \<open>p\<close>, else \<open>KeyError\<close>), and every message that raises while
  it is decoded is handled as an error: it is logged and followed by the sleep of 5
  seconds, with no other change.
\<close>

theorem decode_trade_shapes:
  "(decode_trade sf msg = Inr (Some (p, q)) \<longleftrightarrow>
     (\<exists>kvs pv qv. msg = Text (JObj kvs)
        \<and> map_of kvs ''p'' = Some pv \<and> py_float sf pv = Inr p
        \<and> map_of kvs ''q'' = Some qv \<and> py_float sf qv = Inr q))
   \<and> (decode_trade sf msg = Inr None \<longleftrightarrow>
     (\<exists>kvs. msg = Text (JObj kvs) \<and> map_of kvs ''p'' = None)
     \<or> (\<exists>xs. msg = Text (JArr xs) \<and> JStr ''p'' \<notin> set xs)
     \<or> (\<exists>t. msg = Text (JStr t) \<and> CHR ''p'' \<notin> set t))
   \<and> (msg = Text (JObj kvs) \<longrightarrow> map_of kvs ''p'' = Some pv \<longrightarrow> map_of kvs ''q'' = None \<longrightarrow>
        decode_trade sf msg = (case py_float sf pv of Inl e \<Rightarrow> Inl e | Inr x \<Rightarrow> Inl KeyError))
   \<and> (ws_open s \<longrightarrow> decode_trade sf msg = Inr None \<longrightarrow>
        listen_loop np sf (Suc 0) [Frame msg now] s = (Running, s))
   \<and> (ws_open s \<longrightarrow> decode_trade sf msg = Inl e \<longrightarrow>
        listen_loop np sf (Suc 0) [Frame msg now] s =
          (Running, s\<lparr>effects := effects s @ [LogError ''feed_error'' e, Sleep 5]\<rparr>))"
proof (intro conjI impI)
  show "decode_trade sf msg = Inr (Some (p, q)) \<longleftrightarrow>
     (\<exists>kvs pv qv. msg = Text (JObj kvs)
        \<and> map_of kvs ''p'' = Some pv \<and> py_float sf pv = Inr p
        \<and> map_of kvs ''q'' = Some qv \<and> py_float sf qv = Inr q)"
    by (rule decode_trade_Some_iff)
  show "decode_trade sf msg = Inr None \<longleftrightarrow>
     (\<exists>kvs. msg = Text (JObj kvs) \<and> map_of kvs ''p'' = None)
     \<or> (\<exists>xs. msg = Text (JArr xs) \<and> JStr ''p'' \<notin> set xs)
     \<or> (\<exists>t. msg = Text (JStr t) \<and> CHR ''p'' \<notin> set t)"
    by (rule decode_trade_None_iff)
next
  assume "msg = Text (JObj kvs)" "map_of kvs ''p'' = Some pv" "map_of kvs ''q'' = None"
  then show "decode_trade sf msg =
      (case py_float sf pv of Inl e \<Rightarrow> Inl e | Inr x \<Rightarrow> Inl KeyError)"
    by (simp add: decode_trade_no_q)
next
  assume "ws_open s" "decode_trade sf msg = Inr None"
  then show "listen_loop np sf (Suc 0) [Frame msg now] s = (Running, s)"
    using listen_loop_frame [of s np sf msg now] by simp
next
  assume "ws_open s" "decode_trade sf msg = Inl e"
  then show "listen_loop np sf (Suc 0) [Frame msg now] s =
      (Running, s\<lparr>effects := effects s @ [LogError ''feed_error'' e, Sleep 5]\<rparr>)"
    using listen_loop_frame [of s np sf msg now] by (simp add: except_handler_def)
qed

theorem decode_trade_shapes_witness:
  "decode_trade sample_float trade_message = Inr (Some (100, 2))
   \<and> map_of [(''p'', JStr ''100.0'')] ''p'' = Some (JStr ''100.0'')
   \<and> map_of [(''p'', JStr ''100.0'')] ''q'' = None
   \<and> decode_trade sample_float (Text (JObj [(''p'', JStr ''100.0'')])) = Inl KeyError
   \<and> ws_open ((start_state [])\<lparr>ws_open := True\<rparr>)
   \<and> listen_loop sample_numpy sample_float (Suc 0) [Frame (Text (JObj [(''p'', JStr ''100.0'')])) ''t'']
         ((start_state [])\<lparr>ws_open := True\<rparr>)
       = (Running,
          \<lparr>price_history = [], active_connections = [], ws_open = True,
           effects = [LogError ''feed_error'' KeyError, Sleep 5]\<rparr>)
   \<and> decode_trade sample_float (Text (JObj [(''e'', JStr ''ping'')])) = Inr None
   \<and> listen_loop sample_numpy sample_float (Suc 0) [Frame (Text (JObj [(''e'', JStr ''ping'')])) ''t'']
         ((start_state [])\<lparr>ws_open := True\<rparr>)
       = (Running, (start_state [])\<lparr>ws_open := True\<rparr>)"
proof -
  let ?s = "(start_state [])\<lparr>ws_open := True\<rparr>"
  let ?noq = "Text (JObj [(''p'', JStr ''100.0'')])"
  let ?ping = "Text (JObj [(''e'', JStr ''ping'')])"
  have o: "ws_open ?s" by simp
  have p: "map_of [(''p'', JStr ''100.0'')] ''p'' = Some (JStr ''100.0'')" by simp
  have q: "map_of [(''p'', JStr ''100.0'')] ''q'' = None" by simp
  note noq = decode_trade_shapes
    [where msg = ?noq and np = sample_numpy and sf = sample_float and s = ?s and now = "''t''"
       and e = KeyError
       and kvs = "[(''p'', JStr ''100.0'')]" and pv = "JStr ''100.0''"]
  from noq p q have d: "decode_trade sample_float ?noq = Inl KeyError"
    by (simp add: sample_float_def)
  from noq o d have l: "listen_loop sample_numpy sample_float (Suc 0) [Frame ?noq ''t''] ?s
       = (Running,
          \<lparr>price_history = [], active_connections = [], ws_open = True,
           effects = [LogError ''feed_error'' KeyError, Sleep 5]\<rparr>)"
    by (simp add: start_state_def)
  note ping = decode_trade_shapes
    [where msg = ?ping and np = sample_numpy and sf = sample_float and s = ?s and now = "''t''"]
  from ping have d': "decode_trade sample_float ?ping = Inr None"
    by simp
  from ping o d' have l': "listen_loop sample_numpy sample_float (Suc 0) [Frame ?ping ''t''] ?s = (Running, ?s)"
    by blast
  note tr = decode_trade_shapes
    [where msg = trade_message and sf = sample_float and p = 100 and q = 2]
  from tr have t: "decode_trade sample_float trade_message = Inr (Some (100, 2))"
    by (simp add: trade_message_def sample_float_def)
  from t p q d o l d' l' show ?thesis by blast
qed

text \<open>A message with a price and no quantity is logged as \<open>feed_error\<close> and followed by
  the sleep.\<close>

theorem missing_quantity_counterexample:
  "listen_to_crypto_market sample_numpy sample_float True (Suc 0)
     [Frame (Text (JObj [(''p'', JStr ''100.0'')])) ''t''] (start_state [])
   = (Running,
      \<lparr>price_history = [], active_connections = [], ws_open = True,
       effects = [Connect, LogInfo ''connected_to_binance'',
                  LogError ''feed_error'' KeyError, Sleep 5]\<rparr>)"
  by (simp add: listen_to_crypto_market_def start_state_def decode_trade_def json_loads_def
      sample_float_def is_Exception_def except_handler_def)

subsection \<open>The whale flag\<close>

text \<open>
  C8. Every event that the processing of a trade delivers to a subscriber carries the
  trade's price, the volume \<open>price * quantity\<close>, and an \<open>is_whale\<close> flag that is true
  exactly when that volume is greater than 50000: true at 60000, false at 49999 and at
  50000.
\<close>

theorem whale_flag:
  "process_trade np p q now s = (r, s') \<Longrightarrow> i < length (active_connections s) \<Longrightarrow>
   received (active_connections s' ! i) \<noteq> received (active_connections s ! i) \<Longrightarrow>
   ev = last (received (active_connections s' ! i)) \<Longrightarrow>
   received (active_connections s' ! i) = received (active_connections s ! i) @ [ev]
   \<and> price ev = p \<and> volume ev = p * q \<and> (is_whale ev \<longleftrightarrow> p * q > 50000)"
proof -
  let ?pl = "\<lparr>price = p, stats = calculate_anomaly np (deque_append (price_history s) p) p,
              volume = p * q, is_whale = (p * q > 50000), timestamp = now\<rparr>"
  assume pt: "process_trade np p q now s = (r, s')"
    and i: "i < length (active_connections s)"
    and ch: "received (active_connections s' ! i) \<noteq> received (active_connections s ! i)"
    and ev: "ev = last (received (active_connections s' ! i))"
  from pt have cs': "active_connections s' = snd (broadcast (active_connections s) ?pl)"
    by (auto simp: process_trade_def Let_def split: prod.splits)
  from broadcast_nth [OF i, of ?pl] cs' ch
  have "active_connections s' ! i =
      (active_connections s ! i)\<lparr>received := received (active_connections s ! i) @ [?pl]\<rparr>"
    by auto
  then have "received (active_connections s' ! i) = received (active_connections s ! i) @ [?pl]"
    by simp
  with ev show ?thesis by simp
qed

theorem whale_flag_witness:
  "process_trade sample_numpy 60000 1 ''t'' ((start_state [subscriber 1 True])\<lparr>ws_open := True\<rparr>)
     = (Inr (),
        \<lparr>price_history = [60000],
         active_connections = [(subscriber 1 True)\<lparr>received :=
           [\<lparr>price = 60000, stats = Some \<lparr>status = CALIBRATING, z_score = 0, mean_price = 60000\<rparr>,
             volume = 60000, is_whale = True, timestamp = ''t''\<rparr>]\<rparr>],
         ws_open = True, effects = []\<rparr>)
   \<and> is_whale (last (received (active_connections (snd
         (process_trade sample_numpy 60000 1 ''t'' ((start_state [subscriber 1 True])\<lparr>ws_open := True\<rparr>))) ! 0)))
   \<and> \<not> is_whale (last (received (active_connections (snd
         (process_trade sample_numpy 49999 1 ''t'' ((start_state [subscriber 1 True])\<lparr>ws_open := True\<rparr>))) ! 0)))
   \<and> \<not> is_whale (last (received (active_connections (snd
         (process_trade sample_numpy 50000 1 ''t'' ((start_state [subscriber 1 True])\<lparr>ws_open := True\<rparr>))) ! 0)))"
proof -
  let ?s = "(start_state [subscriber 1 True])\<lparr>ws_open := True\<rparr>"
  have i: "0 < length (active_connections ?s)" by (simp add: start_state_def)
  have ch: "\<And>p. received (active_connections (snd (process_trade sample_numpy p 1 ''t'' ?s)) ! 0)
      \<noteq> received (active_connections ?s ! 0)"
    by (simp add: process_trade_eq start_state_def subscriber_def)
  have a: "process_trade sample_numpy 60000 1 ''t'' ?s
     = (Inr (),
        \<lparr>price_history = [60000],
         active_connections = [(subscriber 1 True)\<lparr>received :=
           [\<lparr>price = 60000, stats = Some \<lparr>status = CALIBRATING, z_score = 0, mean_price = 60000\<rparr>,
             volume = 60000, is_whale = True, timestamp = ''t''\<rparr>]\<rparr>],
         ws_open = True, effects = []\<rparr>)"
    by (simp add: process_trade_eq start_state_def subscriber_def deque_append_def maxlen_def
        calculate_anomaly_def)
  from whale_flag [OF surjective_pairing i ch refl, where p = 60000]
  have b: "is_whale (last (received (active_connections (snd (process_trade sample_numpy 60000 1 ''t'' ?s)) ! 0)))"
    by simp
  from whale_flag [OF surjective_pairing i ch refl, where p = 49999]
  have c: "\<not> is_whale (last (received (active_connections (snd (process_trade sample_numpy 49999 1 ''t'' ?s)) ! 0)))"
    by simp
  from whale_flag [OF surjective_pairing i ch refl, where p = 50000]
  have d: "\<not> is_whale (last (received (active_connections (snd (process_trade sample_numpy 50000 1 ''t'' ?s)) ! 0)))"
    by simp
  from a b c d show ?thesis by blast
qed

end
